theory Spec2Isabelle
  imports Main "HOL-Library.Word"
begin

section \<open>QDjangoQuerySet::const_iterator (src/db/QDjangoQuerySet.h, lines 77-283)\<close>

text \<open>
  The C++ \<^verbatim>\<open>int\<close> of the iterator's offset and memo is a 32-bit two's-complement
  integer: \<open>sint\<close> reads its value, and the comparisons \<^verbatim>\<open><\<close>, \<^verbatim>\<open><=\<close> of the
  source are comparisons of \<open>sint\<close>. C++ leaves a signed sum or difference that does
  not fit undefined; the model takes the wrap-around the usual targets compute, so
  \<open>+\<close> and \<open>-\<close> are those of the 32-bit word.
  A \<^verbatim>\<open>const QDjangoQuerySet *\<close> is an address; address 0 is the null pointer.
\<close>

type_synonym cint = "32 word"
type_synonym qs_ptr = nat

text \<open>
  A \<^verbatim>\<open>QObject\<close>, as far as the iterator can tell one from another: the properties a
  query set has loaded into it. A default-constructed \<^verbatim>\<open>QObject\<close> has none.
\<close>

datatype QObject = QObject "(string \<times> string) list"

record const_iterator =
  m_querySet :: qs_ptr
  m_fetched :: cint
  m_object :: QObject
  m_offset :: cint

text \<open>The three constructors: default (line 101), copy (line 110), private (line 118).\<close>

definition const_iterator_default :: const_iterator where
  "const_iterator_default =
     \<lparr>m_querySet = 0, m_fetched = - 1, m_object = QObject [], m_offset = 0\<rparr>"

definition const_iterator_copy :: "const_iterator \<Rightarrow> const_iterator" where
  "const_iterator_copy other =
     \<lparr>m_querySet = m_querySet other, m_fetched = - 1, m_object = QObject [],
      m_offset = m_offset other\<rparr>"

definition const_iterator_of :: "qs_ptr \<Rightarrow> cint \<Rightarrow> const_iterator" where
  "const_iterator_of querySet offset =
     \<lparr>m_querySet = querySet, m_fetched = - 1, m_object = QObject [], m_offset = offset\<rparr>"

subsection \<open>Comparison operators (lines 144-193)\<close>

definition op_eq :: "const_iterator \<Rightarrow> const_iterator \<Rightarrow> bool" where
  "op_eq a other = (m_querySet a = m_querySet other \<and> m_offset a = m_offset other)"

definition op_ne :: "const_iterator \<Rightarrow> const_iterator \<Rightarrow> bool" where
  "op_ne a other = (m_querySet a \<noteq> m_querySet other \<or> m_offset a \<noteq> m_offset other)"

definition op_lt :: "const_iterator \<Rightarrow> const_iterator \<Rightarrow> bool" where
  "op_lt a other =
     ((m_querySet a = m_querySet other \<and> sint (m_offset a) < sint (m_offset other))
      \<or> m_querySet a < m_querySet other)"

definition op_le :: "const_iterator \<Rightarrow> const_iterator \<Rightarrow> bool" where
  "op_le a other =
     ((m_querySet a = m_querySet other \<and> sint (m_offset a) \<le> sint (m_offset other))
      \<or> m_querySet a < m_querySet other)"

definition op_gt :: "const_iterator \<Rightarrow> const_iterator \<Rightarrow> bool" where
  "op_gt a other =
     ((m_querySet a = m_querySet other \<and> sint (m_offset a) > sint (m_offset other))
      \<or> m_querySet a > m_querySet other)"

definition op_ge :: "const_iterator \<Rightarrow> const_iterator \<Rightarrow> bool" where
  "op_ge a other =
     ((m_querySet a = m_querySet other \<and> sint (m_offset a) \<ge> sint (m_offset other))
      \<or> m_querySet a > m_querySet other)"

subsection \<open>Stepping and arithmetic (lines 202-263)\<close>

text \<open>
  The operators that return \<^verbatim>\<open>*this\<close> by reference return the updated iterator. The
  postfix forms return the pair of the copy they hand back (made by the copy
  constructor, line 211 and 257) and the updated iterator.
\<close>

definition op_pre_inc :: "const_iterator \<Rightarrow> const_iterator" where
  "op_pre_inc it = it\<lparr>m_offset := m_offset it + 1\<rparr>"

definition op_post_inc :: "const_iterator \<Rightarrow> const_iterator \<times> const_iterator" where
  "op_post_inc it = (const_iterator_copy it, it\<lparr>m_offset := m_offset it + 1\<rparr>)"

definition op_add_assign :: "const_iterator \<Rightarrow> cint \<Rightarrow> const_iterator" where
  "op_add_assign it i = it\<lparr>m_offset := m_offset it + i\<rparr>"

definition op_plus :: "const_iterator \<Rightarrow> cint \<Rightarrow> const_iterator" where
  "op_plus it i = const_iterator_of (m_querySet it) (m_offset it + i)"

definition op_sub_assign :: "const_iterator \<Rightarrow> cint \<Rightarrow> const_iterator" where
  "op_sub_assign it i = it\<lparr>m_offset := m_offset it - i\<rparr>"

definition op_minus :: "const_iterator \<Rightarrow> cint \<Rightarrow> const_iterator" where
  "op_minus it i = const_iterator_of (m_querySet it) (m_offset it - i)"

definition op_pre_dec :: "const_iterator \<Rightarrow> const_iterator" where
  "op_pre_dec it = it\<lparr>m_offset := m_offset it - 1\<rparr>"

definition op_post_dec :: "const_iterator \<Rightarrow> const_iterator \<times> const_iterator" where
  "op_post_dec it = (const_iterator_copy it, it\<lparr>m_offset := m_offset it - 1\<rparr>)"

text \<open>
  Line 263: the subtraction is done on \<^verbatim>\<open>int\<close> and its result converted to
  \<^verbatim>\<open>qptrdiff\<close>, which is at least as wide, so the value handed back is the signed
  value of the 32-bit difference.
\<close>

definition op_diff :: "const_iterator \<Rightarrow> const_iterator \<Rightarrow> int" where
  "op_diff a other = sint (m_offset a - m_offset other)"

subsection \<open>Fetching through the query set (lines 126-136 and 266-275)\<close>

text \<open>
  The query sets live in a heap addressed by pointer.
  \<^verbatim>\<open>QDjangoQuerySet::at(int index, QObject *target)\<close> is declared at line 310; its body
  is not part of the header, so the iterator is modelled over any \<open>at\<close>: given the
  heap, the address of the query set it is called on, the index and what the target
  object holds, it tells whether the pointer it returns is non-null, what the target
  holds afterwards and what the heap holds afterwards (\<^verbatim>\<open>at\<close> is not \<^verbatim>\<open>const\<close>, line
  269 casts the constness away; and query sets share their data implicitly, lines
  40-41, so a call may change more than the one query set).

  \<open>at_calls\<close> records every call of \<^verbatim>\<open>at\<close> the iterators make, oldest first: the
  pointer and the index.
\<close>

type_synonym 'qs at_fn =
  "(qs_ptr \<Rightarrow> 'qs) \<Rightarrow> qs_ptr \<Rightarrow> cint \<Rightarrow> QObject \<Rightarrow> bool \<times> QObject \<times> (qs_ptr \<Rightarrow> 'qs)"

record 'qs world =
  heap :: "qs_ptr \<Rightarrow> 'qs"
  at_calls :: "(qs_ptr \<times> cint) list"

text \<open>
  \<^verbatim>\<open>t()\<close> is \<^verbatim>\<open>const\<close> but writes the \<^verbatim>\<open>mutable\<close> members \<open>m_fetched\<close> and
  \<open>m_object\<close>, so it returns the iterator too. Its result is a pointer: \<open>Some\<close> of the
  contents of \<open>m_object\<close> for \<^verbatim>\<open>&m_object\<close>, \<open>None\<close> for the null pointer.
\<close>

definition t :: "'qs at_fn \<Rightarrow> const_iterator \<Rightarrow> 'qs world
    \<Rightarrow> QObject option \<times> const_iterator \<times> 'qs world" where
  "t at it w =
     (let (it1, w1) =
        (if m_fetched it \<noteq> m_offset it \<and> m_querySet it \<noteq> 0 then
           (case at (heap w) (m_querySet it) (m_offset it) (m_object it) of
              (found, target, h) \<Rightarrow>
                (if found then it\<lparr>m_object := target, m_fetched := m_offset it\<rparr>
                 else it\<lparr>m_object := target\<rparr>,
                 w\<lparr>heap := h, at_calls := at_calls w @ [(m_querySet it, m_offset it)]\<rparr>))
         else (it, w))
      in (if m_fetched it1 = m_offset it1 then Some (m_object it1) else None, it1, w1))"

text \<open>
  \<^verbatim>\<open>operator->\<close> hands the pointer of \<^verbatim>\<open>t()\<close> back. \<^verbatim>\<open>operator*\<close> dereferences it
  without a test: on the null pointer that is undefined behaviour in C++, which the
  model records as \<open>NullDereference\<close>; it is not a value the caller can test for.
\<close>

datatype 'a deref = NullDereference | Ref 'a

definition op_arrow :: "'qs at_fn \<Rightarrow> const_iterator \<Rightarrow> 'qs world
    \<Rightarrow> QObject option \<times> const_iterator \<times> 'qs world" where
  "op_arrow at it w = t at it w"

definition op_star :: "'qs at_fn \<Rightarrow> const_iterator \<Rightarrow> 'qs world
    \<Rightarrow> QObject deref \<times> const_iterator \<times> 'qs world" where
  "op_star at it w =
     (case t at it w of
        (None, it1, w1) \<Rightarrow> (NullDereference, it1, w1)
      | (Some ob, it1, w1) \<Rightarrow> (Ref ob, it1, w1))"

subsection \<open>A query set for the examples\<close>

text \<open>
  Modelled from the spec: the body of \<^verbatim>\<open>QDjangoQuerySet::at\<close> is not in the header.
  For the examples, \<open>loaded_at\<close> is \<^verbatim>\<open>at\<close> on a heap of query sets that are exhausted
  and hold all their objects in their caches (section 4.2): an index in the cache is a
  hit, which loads the target with the cached object; any other index fails and leaves
  the target as it was. The heap stays as it is.
\<close>

definition loaded_at :: "QObject list at_fn" where
  "loaded_at h querySet index target =
     (if 0 \<le> sint index \<and> nat (sint index) < length (h querySet)
      then (True, h querySet ! nat (sint index), h) else (False, target, h))"

text \<open>
  Modelled from the spec: a heap for the examples, with such a query set of one object
  at address 1 and no call of \<^verbatim>\<open>at\<close> made yet.
\<close>

definition one_row :: "QObject list world" where
  "one_row = \<lparr>heap = (\<lambda>_. [])(1 := [QObject [(''id'', ''7'')]]), at_calls = []\<rparr>"

text \<open>
  Modelled from the spec: the body of \<^verbatim>\<open>QDjangoQuerySet::at\<close> is not in the header. By
  section 4.2 an index already in the cache is returned directly, and by section 3
  re-reading an index is a pure cache hit. \<open>cache_hit\<close> says so of an \<open>at\<close>: whenever
  a call finds its index, a further call on the same query set at the same index, on
  the heap the first call left, finds the same object, whatever the target held, and
  leaves the heap as it is.
\<close>

definition cache_hit :: "'qs at_fn \<Rightarrow> bool" where
  "cache_hit at =
     (\<forall>h p i target target'.
        fst (at h p i target) \<longrightarrow>
        at (snd (snd (at h p i target))) p i target'
          = (True, fst (snd (at h p i target)), snd (snd (at h p i target))))"

section \<open>The query set behind the header\<close>

text \<open>
  The header declares the member functions of \<^verbatim>\<open>QDjangoQuerySet\<close> (lines 288-318) and
  keeps its state behind the pointer \<^verbatim>\<open>d\<close> (line 321). Their bodies, the private
  class and \<^verbatim>\<open>QDjangoWhere\<close> are not among the sources, so this section follows
  sections 3 and 4 of the specification, sentence by sentence.
\<close>

text \<open>
  Modelled from the spec: the operators a comparison may use (section 4.1);
  \<^verbatim>\<open>QDjangoWhere\<close> is not among the sources.
\<close>

datatype operator = Equals | NotEquals | LessThan | LessOrEquals | GreaterThan
  | GreaterOrEquals | Like | ILike | IsIn | IsNull | IsNotNull | StartsWith | EndsWith
  | Contains | Range

text \<open>
  Modelled from the spec: the Predicate Node of section 3, a tagged variant of
  comparison, negation, conjunction, disjunction, \<open>Empty\<close> (matches nothing) and
  \<open>All\<close> (matches everything); \<^verbatim>\<open>QDjangoWhere\<close> is not among the sources.
\<close>

datatype predicate =
    Comparison_node string operator string
  | Not_node predicate
  | And_node predicate predicate
  | Or_node predicate predicate
  | Empty_node
  | All_node

text \<open>
  Modelled from the spec: the combinator \<^verbatim>\<open>and\<close> of section 4.1, missing with
  \<^verbatim>\<open>QDjangoWhere\<close>: and-ing with \<open>All\<close> returns the other operand unchanged.
\<close>

fun and_p :: "predicate \<Rightarrow> predicate \<Rightarrow> predicate" where
  "and_p All_node q = q"
| "and_p p All_node = p"
| "and_p p q = And_node p q"

text \<open>
  Modelled from the spec: \<^verbatim>\<open>negate\<close> of section 4.1, missing with \<^verbatim>\<open>QDjangoWhere\<close>:
  it wraps in \<open>Not\<close> and never collapses a double negation.
\<close>

definition negate :: "predicate \<Rightarrow> predicate" where
  "negate p = Not_node p"

text \<open>
  Modelled from the spec: the Query Specification of section 3, kept by the missing
  private class: the predicate, the ordering keys (column and whether ascending), the
  offset, the optional length (\<open>None\<close> is unlimited) and the prefetch flag.
\<close>

record query_spec =
  predicate :: predicate
  ordering :: "(string \<times> bool) list"
  offset :: int
  window_length :: "int option"
  related :: bool

text \<open>
  Modelled from the spec: the defaults of a Query Specification (section 3), set by the
  missing constructor: predicate \<open>All\<close>, no ordering, offset 0, unlimited, prefetch off.
\<close>

definition default_spec :: query_spec where
  "default_spec =
     \<lparr>predicate = All_node, ordering = [], offset = 0, window_length = None, related = False\<rparr>"

text \<open>
  Modelled from the spec: the window of \<^verbatim>\<open>limit(offset, length)\<close> (section 4.2), whose
  body is missing. The new offset is relative to the previous window's start. A
  negative length asks for no bound of its own. If the previous window had an end, the
  new length is clamped to the room left up to that end; where the new start lies beyond
  that end no room is left and the window is empty (the spec leaves this case open).
\<close>

definition limit_spec :: "query_spec \<Rightarrow> int \<Rightarrow> int \<Rightarrow> query_spec" where
  "limit_spec sp pos len =
     (let start = offset sp + pos;
          wanted = (if len < 0 then None else Some len);
          room = (case window_length sp of
                    None \<Rightarrow> None
                  | Some l \<Rightarrow> Some (max 0 (offset sp + l - start)))
      in sp\<lparr>offset := start,
            window_length :=
              (case (wanted, room) of
                 (None, r) \<Rightarrow> r
               | (Some n, None) \<Rightarrow> Some n
               | (Some n, Some r) \<Rightarrow> Some (min n r))\<rparr>)"

text \<open>
  Modelled from the spec: the Result Cache of section 3, kept by the missing private
  class: the objects materialized so far, index \<open>i\<close> holding offset \<open>i\<close> of the window
  (the high-water mark is the length of \<open>rows\<close>), the exhausted flag, and the count
  that \<^verbatim>\<open>count()\<close> caches per query set (section 4.2).
\<close>

record 'obj result_cache =
  rows :: "'obj list"
  exhausted :: bool
  count_cache :: "nat option"

text \<open>
  Modelled from the spec: the fresh, empty cache every chaining operation gives its
  result (section 4.2); the private class that builds it is missing.
\<close>

definition empty_cache :: "'obj result_cache" where
  "empty_cache = \<lparr>rows = [], exhausted = False, count_cache = None\<rparr>"

text \<open>
  Modelled from the spec: a Query-Set handle (section 3) is a Query Specification and
  a reference to its cache; handles made by plain copy hold the same reference and so
  share the cache. The private class behind \<^verbatim>\<open>d\<close> is missing.
\<close>

record query_set =
  spec :: query_spec
  cache_ref :: nat

text \<open>
  Modelled from the spec: the caches of all live query sets, by reference, and the
  next reference not yet in use; the allocation behind \<^verbatim>\<open>d\<close> is missing.
\<close>

record 'obj store =
  caches :: "nat \<Rightarrow> 'obj result_cache"
  next_ref :: nat

text \<open>
  Modelled from the spec: what every chaining operation does with the specification
  it has derived (section 4.2): it returns a new query set that owns a brand-new,
  empty cache. The bodies of the chaining functions are missing.
\<close>

definition chain :: "query_spec \<Rightarrow> 'obj store \<Rightarrow> query_set \<times> 'obj store" where
  "chain sp st =
     (\<lparr>spec = sp, cache_ref = next_ref st\<rparr>,
      st\<lparr>caches := (caches st)(next_ref st := empty_cache), next_ref := Suc (next_ref st)\<rparr>)"

text \<open>
  Modelled from the spec: \<^verbatim>\<open>all()\<close>, declared at line 292, body missing: the same
  specification on a fresh cache.
\<close>

definition all_qs :: "query_set \<Rightarrow> 'obj store \<Rightarrow> query_set \<times> 'obj store" where
  "all_qs qs st = chain (spec qs) st"

text \<open>
  Modelled from the spec: \<^verbatim>\<open>filter(where)\<close>, declared at line 294, body missing: it
  combines the new predicate with the existing one via \<^verbatim>\<open>and\<close>.
\<close>

definition filter_qs :: "query_set \<Rightarrow> predicate \<Rightarrow> 'obj store \<Rightarrow> query_set \<times> 'obj store" where
  "filter_qs qs p st = chain ((spec qs)\<lparr>predicate := and_p (predicate (spec qs)) p\<rparr>) st"

text \<open>
  Modelled from the spec: \<^verbatim>\<open>exclude(where)\<close>, declared at line 293, body missing: it
  combines via \<^verbatim>\<open>and(negate(predicate))\<close>.
\<close>

definition exclude_qs :: "query_set \<Rightarrow> predicate \<Rightarrow> 'obj store \<Rightarrow> query_set \<times> 'obj store" where
  "exclude_qs qs p st =
     chain ((spec qs)\<lparr>predicate := and_p (predicate (spec qs)) (negate p)\<rparr>) st"

text \<open>
  Modelled from the spec: \<^verbatim>\<open>none()\<close>, declared at line 296, body missing: it replaces
  the predicate with \<open>Empty\<close>.
\<close>

definition none_qs :: "query_set \<Rightarrow> 'obj store \<Rightarrow> query_set \<times> 'obj store" where
  "none_qs qs st = chain ((spec qs)\<lparr>predicate := Empty_node\<rparr>) st"

text \<open>
  Modelled from the spec: \<^verbatim>\<open>orderBy(keys)\<close>, declared at line 297, body missing: it
  replaces the ordering list.
\<close>

definition orderBy_qs :: "query_set \<Rightarrow> (string \<times> bool) list \<Rightarrow> 'obj store
    \<Rightarrow> query_set \<times> 'obj store" where
  "orderBy_qs qs keys st = chain ((spec qs)\<lparr>ordering := keys\<rparr>) st"

text \<open>
  Modelled from the spec: \<^verbatim>\<open>limit(pos, length)\<close>, declared at line 295, body missing:
  it re-bases the window.
\<close>

definition limit_qs :: "query_set \<Rightarrow> int \<Rightarrow> int \<Rightarrow> 'obj store \<Rightarrow> query_set \<times> 'obj store" where
  "limit_qs qs pos len st = chain (limit_spec (spec qs) pos len) st"

text \<open>
  Modelled from the spec: \<^verbatim>\<open>selectRelated()\<close>, declared at line 298, body missing: it
  turns the prefetch flag on.
\<close>

definition selectRelated_qs :: "query_set \<Rightarrow> 'obj store \<Rightarrow> query_set \<times> 'obj store" where
  "selectRelated_qs qs st = chain ((spec qs)\<lparr>related := True\<rparr>) st"

text \<open>
  Modelled from the spec: the failures of \<^verbatim>\<open>at\<close> in the taxonomy of section 7; the
  header has no error type.
\<close>

datatype error = IndexOutOfRange | ExecutionFailure string

text \<open>
  Modelled from the spec: a compiled statement. The compiler is missing and the spec
  does not publish its text, so a statement is named by what it was compiled from: the
  specification, and the page asked for (first index of the window, number of rows).
\<close>

datatype statement = SelectPage query_spec nat nat

text \<open>
  Modelled from the spec: the consumed interfaces of section 6, external collaborators
  by design: \<^verbatim>\<open>execute\<close> gives the rows of a statement or a failure, \<^verbatim>\<open>populate\<close> makes
  an object of a row.
\<close>

record ('row, 'obj) external =
  execute :: "statement \<Rightarrow> string + 'row list"
  populate :: "'row \<Rightarrow> 'obj"

text \<open>
  Modelled from the spec: the batch size of a paged fetch, "default suggested: 255"
  (section 4.2); the constant of the missing body.
\<close>

definition batch_size :: nat where
  "batch_size = 255"

text \<open>
  Modelled from the spec: \<^verbatim>\<open>at(index)\<close> of section 4.2, declared at line 310 with an
  \<^verbatim>\<open>int\<close> index, body missing. A negative index lies before the window's start, where
  the cache (indexed from 0, section 3) holds nothing and no fetch from the high-water
  mark can reach: it fails with \<open>IndexOutOfRange\<close>, with no query (the spec does not
  treat this case apart). An index in the cache is returned directly, with no query.
  Otherwise, if the set is exhausted, or short-circuited by the predicate \<open>Empty\<close>, it fails with
  \<open>IndexOutOfRange\<close>, again with no query. Otherwise one paged query fetches from the
  high-water mark through at least \<open>index\<close>; a failure of the execution is handed on and
  leaves the cache as it was; fetched rows are appended, the exhausted flag is set when
  fewer rows came back than were asked for, and the element at \<open>index\<close> is returned, or
  \<open>IndexOutOfRange\<close> when the rows did not reach it. The result comes with the store
  afterwards and the statements this call has executed.
\<close>

definition at_qs :: "('row, 'obj) external \<Rightarrow> query_set \<Rightarrow> int \<Rightarrow> 'obj store
    \<Rightarrow> (error + 'obj) \<times> 'obj store \<times> statement list" where
  "at_qs ext qs index st =
     (let c = caches st (cache_ref qs) in
      if index < 0 then (Inl IndexOutOfRange, st, [])
      else if nat index < length (rows c) then (Inr (rows c ! nat index), st, [])
      else if exhausted c \<or> predicate (spec qs) = Empty_node then (Inl IndexOutOfRange, st, [])
      else
        (let start = length (rows c);
             wanted = max batch_size (Suc (nat index) - start);
             stmt = SelectPage (spec qs) start wanted
         in case execute ext stmt of
              Inl failure \<Rightarrow> (Inl (ExecutionFailure failure), st, [stmt])
            | Inr fetched \<Rightarrow>
                (let c' = c\<lparr>rows := rows c @ map (populate ext) fetched,
                            exhausted := length fetched < wanted\<rparr>;
                     st' = st\<lparr>caches := (caches st)(cache_ref qs := c')\<rparr>
                 in (if nat index < length (rows c') then Inr (rows c' ! nat index)
                     else Inl IndexOutOfRange, st', [stmt]))))"


text \<open>
  Modelled from the spec: two query sets are behaviourally equivalent when their
  specifications compare equal (section 3) and their caches hold the same.
\<close>

definition equivalent :: "query_set \<Rightarrow> 'obj store \<Rightarrow> query_set \<Rightarrow> 'obj store \<Rightarrow> bool" where
  "equivalent q1 st1 q2 st2 =
     (spec q1 = spec q2 \<and> caches st1 (cache_ref q1) = caches st2 (cache_ref q2))"

subsection \<open>A database for the examples\<close>

text \<open>
  Modelled from the spec: the rows of a table inside a specification's window, from
  the offset on and as many as the length allows (section 3); the examples' database
  uses it, the execution interface being an external collaborator.
\<close>

definition window :: "query_spec \<Rightarrow> 'row list \<Rightarrow> 'row list" where
  "window sp table =
     (case window_length sp of
        None \<Rightarrow> drop (nat (offset sp)) table
      | Some l \<Rightarrow> take (nat l) (drop (nat (offset sp)) table))"

text \<open>
  Modelled from the spec: the examples' execution of a statement against one table in
  which every row matches: the page asked for, of the rows inside the window.
\<close>

fun run_statement :: "'row list \<Rightarrow> statement \<Rightarrow> string + 'row list" where
  "run_statement table (SelectPage sp start wanted) =
     Inr (take wanted (drop start (window sp table)))"

text \<open>
  Modelled from the spec: the external collaborators of the examples, a database of
  one table of strings whose objects are the rows themselves.
\<close>

definition table_db :: "string list \<Rightarrow> (string, string) external" where
  "table_db table = \<lparr>execute = run_statement table, populate = id\<rparr>"


text \<open>
  Modelled from the spec: a query set as its factory makes it, with the default
  specification, on cache 0.
\<close>

definition fresh_set :: query_set where
  "fresh_set = \<lparr>spec = default_spec, cache_ref = 0\<rparr>"

text \<open>
  Modelled from the spec: the store in which that query set is the only one and its
  cache is still empty.
\<close>

definition fresh_store :: "string store" where
  "fresh_store = \<lparr>caches = (\<lambda>_. empty_cache), next_ref = 1\<rparr>"

text \<open>
  Modelled from the spec: the store after the first \<^verbatim>\<open>at(0)\<close> of that query set
  against the one-row table: the row is cached and the set exhausted.
\<close>

definition loaded_store :: "string store" where
  "loaded_store =
     \<lparr>caches = (\<lambda>_. empty_cache)
        (0 := \<lparr>rows = [''alice''], exhausted = True, count_cache = None\<rparr>),
      next_ref = 1\<rparr>"

section \<open>Equality of iterators\<close>

text \<open>
  Claim C8. Two iterators are equal exactly when they hold the same query-set pointer
  and the same offset, and \<^verbatim>\<open>!=\<close> is the negation of \<^verbatim>\<open>==\<close>. The memo and the fetched
  object play no part: whatever \<open>m_fetched\<close> and \<open>m_object\<close> hold, and after any
  \<^verbatim>\<open>t()\<close> on either side, the answer is the same. Identity, not content: iterators
  over two different addresses differ even when the query sets stored there are equal.
\<close>

theorem op_eq_identity_and_offset:
  "op_eq a b = (m_querySet a = m_querySet b \<and> m_offset a = m_offset b)
   \<and> op_ne a b = (\<not> op_eq a b)
   \<and> op_eq (a\<lparr>m_fetched := f, m_object := x\<rparr>) (b\<lparr>m_fetched := g, m_object := y\<rparr>)
       = op_eq a b
   \<and> op_eq (fst (snd (t at a w))) (fst (snd (t at' b w'))) = op_eq a b
   \<and> (p \<noteq> q \<and> heap w p = heap w q
        \<longrightarrow> \<not> op_eq (const_iterator_of p n) (const_iterator_of q n))"
  by (auto simp: op_eq_def op_ne_def t_def const_iterator_of_def Let_def split: prod.splits)

theorem op_eq_identity_and_offset_witness:
  "(1::nat) \<noteq> 2
   \<and> heap \<lparr>heap = (\<lambda>_. ''same''), at_calls = []\<rparr> 1
       = heap \<lparr>heap = (\<lambda>_. ''same''), at_calls = []\<rparr> 2
   \<and> \<not> op_eq (const_iterator_of 1 5) (const_iterator_of 2 5)"
  using op_eq_identity_and_offset [where p = 1 and q = 2 and n = 5
      and w = "\<lparr>heap = (\<lambda>_. ''same''), at_calls = []\<rparr>",
      THEN conjunct2, THEN conjunct2, THEN conjunct2, THEN conjunct2]
  by simp

section \<open>Iterator arithmetic\<close>

lemma sint_add_in_range:
  "- (2 ^ 31) \<le> sint (a :: cint) + sint b \<Longrightarrow> sint a + sint b < 2 ^ 31
   \<Longrightarrow> sint (a + b) = sint a + sint b"
  by (simp add: sint_word_ariths signed_take_bit_int_eq_self)

lemma sint_sub_in_range:
  "- (2 ^ 31) \<le> sint (a :: cint) - sint b \<Longrightarrow> sint a - sint b < 2 ^ 31
   \<Longrightarrow> sint (a - b) = sint a - sint b"
  by (simp add: sint_word_ariths signed_take_bit_int_eq_self)

text \<open>
  Claim C9. \<open>it + n\<close> is an iterator over the same query set at offset \<open>offset + n\<close>;
  the distance \<open>(it + n) - it\<close> is \<open>n\<close>; advancing by \<open>n\<close> and retreating by \<open>n\<close>
  (with \<^verbatim>\<open>+=\<close> and \<^verbatim>\<open>-=\<close>, with \<^verbatim>\<open>+\<close> and \<^verbatim>\<open>-\<close>, with \<^verbatim>\<open>++\<close> and \<^verbatim>\<open>--\<close> in prefix
  and postfix form) gives an iterator equal to the original; and \<open>a - b\<close> is the
  difference of the offsets. The sums and differences are those of the C++ \<^verbatim>\<open>int\<close>;
  whenever the exact sum or difference fits in 32 bits they are the exact ones.
\<close>

theorem iterator_arithmetic:
  "m_querySet (op_plus it n) = m_querySet it
   \<and> m_offset (op_plus it n) = m_offset it + n
   \<and> op_diff (op_plus it n) it = sint n
   \<and> op_eq (op_sub_assign (op_add_assign it n) n) it
   \<and> op_eq (op_minus (op_plus it n) n) it
   \<and> op_eq (op_pre_dec (op_pre_inc it)) it
   \<and> op_eq (snd (op_post_dec (snd (op_post_inc it)))) it
   \<and> op_diff a b = sint (m_offset a - m_offset b)
   \<and> (- (2 ^ 31) \<le> sint (m_offset it) + sint n \<and> sint (m_offset it) + sint n < 2 ^ 31
        \<longrightarrow> sint (m_offset (op_plus it n)) = sint (m_offset it) + sint n)
   \<and> (- (2 ^ 31) \<le> sint (m_offset a) - sint (m_offset b)
        \<and> sint (m_offset a) - sint (m_offset b) < 2 ^ 31
        \<longrightarrow> op_diff a b = sint (m_offset a) - sint (m_offset b))"
  by (simp add: op_plus_def op_minus_def op_diff_def op_eq_def op_add_assign_def
      op_sub_assign_def op_pre_inc_def op_pre_dec_def op_post_inc_def op_post_dec_def
      const_iterator_of_def sint_add_in_range sint_sub_in_range)

theorem iterator_arithmetic_witness:
  "- (2 ^ 31) \<le> sint (5 :: cint) + sint (3 :: cint)
   \<and> sint (5 :: cint) + sint (3 :: cint) < 2 ^ 31
   \<and> sint (m_offset (op_plus (const_iterator_of 1 5) 3)) = 8
   \<and> - (2 ^ 31) \<le> sint (9 :: cint) - sint (4 :: cint)
   \<and> sint (9 :: cint) - sint (4 :: cint) < 2 ^ 31
   \<and> op_diff (const_iterator_of 1 9) (const_iterator_of 1 4) = 5"
  using iterator_arithmetic [where it = "const_iterator_of 1 5" and n = 3
      and a = "const_iterator_of 1 9" and b = "const_iterator_of 1 4"]
  by (simp add: const_iterator_of_def)

section \<open>Copies and the fetch memo\<close>

text \<open>
  Claim C10. A copy compares equal to the original, and its memo is reset:
  \<open>m_fetched\<close> is -1 and \<open>m_object\<close> is a default-constructed object, whatever the
  original had fetched. For every initialised iterator at a position the header
  documents (a query set, an offset from 0 on; the proof needs only that the offset is
  not -1), the first \<^verbatim>\<open>t()\<close> of the copy calls \<^verbatim>\<open>at\<close> exactly once, at the copy's offset
  and with the copy's own fresh object as target; what it hands back is what that call
  loaded, or the null pointer when the call failed, never the object the original had
  materialized. The call goes to the query set on the heap as it stands, which is the
  heap the original's fetch left: where \<^verbatim>\<open>at\<close> serves a cached index from the cache
  (\<open>cache_hit\<close>), the copy of an iterator that has just fetched its object is handed
  that same object by \<^verbatim>\<open>at\<close>, and the heap stays as it is.
\<close>

theorem copy_resets_memo:
  "op_eq (const_iterator_copy it) it
   \<and> m_fetched (const_iterator_copy it) = - 1
   \<and> m_object (const_iterator_copy it) = QObject []
   \<and> (m_querySet it \<noteq> 0 \<and> m_offset it \<noteq> - 1 \<longrightarrow>
        (case at (heap w) (m_querySet it) (m_offset it) (QObject []) of
           (found, target, h) \<Rightarrow>
             t at (const_iterator_copy it) w =
               (if found then Some target else None,
                (const_iterator_copy it)
                  \<lparr>m_object := target, m_fetched := (if found then m_offset it else - 1)\<rparr>,
                w\<lparr>heap := h, at_calls := at_calls w @ [(m_querySet it, m_offset it)]\<rparr>)))
   \<and> (cache_hit at \<and> m_querySet it \<noteq> 0 \<and> m_offset it \<noteq> - 1
        \<and> m_fetched it \<noteq> m_offset it \<and> fst (t at it w) = Some ob \<longrightarrow>
        t at (const_iterator_copy (fst (snd (t at it w)))) (snd (snd (t at it w))) =
          (Some ob,
           (const_iterator_copy it)\<lparr>m_object := ob, m_fetched := m_offset it\<rparr>,
           (snd (snd (t at it w)))
             \<lparr>at_calls := at_calls (snd (snd (t at it w))) @ [(m_querySet it, m_offset it)]\<rparr>))"
proof -
  have first: "op_eq (const_iterator_copy it) it"
    "m_fetched (const_iterator_copy it) = - 1" "m_object (const_iterator_copy it) = QObject []"
    by (simp_all add: op_eq_def const_iterator_copy_def)
  have fetch: "case at (heap w) (m_querySet it) (m_offset it) (QObject []) of
           (found, target, h) \<Rightarrow>
             t at (const_iterator_copy it) w =
               (if found then Some target else None,
                (const_iterator_copy it)
                  \<lparr>m_object := target, m_fetched := (if found then m_offset it else - 1)\<rparr>,
                w\<lparr>heap := h, at_calls := at_calls w @ [(m_querySet it, m_offset it)]\<rparr>)"
    if "m_querySet it \<noteq> 0" "m_offset it \<noteq> - 1"
    using that by (auto simp: const_iterator_copy_def t_def Let_def split: prod.splits)
  have again: "t at (const_iterator_copy (fst (snd (t at it w)))) (snd (snd (t at it w))) =
          (Some ob,
           (const_iterator_copy it)\<lparr>m_object := ob, m_fetched := m_offset it\<rparr>,
           (snd (snd (t at it w)))
             \<lparr>at_calls := at_calls (snd (snd (t at it w))) @ [(m_querySet it, m_offset it)]\<rparr>)"
    if hit: "cache_hit at" and set: "m_querySet it \<noteq> 0" and pos: "m_offset it \<noteq> - 1"
      and memo: "m_fetched it \<noteq> m_offset it" and got: "fst (t at it w) = Some ob"
  proof -
    obtain found target h where
      call: "at (heap w) (m_querySet it) (m_offset it) (m_object it) = (found, target, h)"
      by (cases "at (heap w) (m_querySet it) (m_offset it) (m_object it)") auto
    from got memo set call have found: "found" and ob: "target = ob"
      by (auto simp: t_def Let_def split: if_splits)
    from hit
    have "fst (at (heap w) (m_querySet it) (m_offset it) (m_object it)) \<longrightarrow>
        at (snd (snd (at (heap w) (m_querySet it) (m_offset it) (m_object it))))
           (m_querySet it) (m_offset it) (QObject [])
          = (True, fst (snd (at (heap w) (m_querySet it) (m_offset it) (m_object it))),
             snd (snd (at (heap w) (m_querySet it) (m_offset it) (m_object it))))"
      unfolding cache_hit_def by blast
    with call found ob
    have served: "at h (m_querySet it) (m_offset it) (QObject []) = (True, ob, h)"
      by simp
    show ?thesis
      using memo set pos call found ob served
      by (simp add: t_def Let_def const_iterator_copy_def)
  qed
  show ?thesis
    by (intro conjI impI; (elim conjE)?) (rule first fetch again; assumption)+
qed

lemma cache_hit_loaded_at: "cache_hit loaded_at"
  by (simp add: cache_hit_def loaded_at_def)

text \<open>
  The examples. An iterator that holds a stale object for offset 0 is copied; the copy
  calls \<^verbatim>\<open>at\<close> and hands back what that call loaded, not the original's object. An
  iterator over the one-object query set fetches offset 0 and is copied; the copy calls
  \<^verbatim>\<open>at\<close> again, which serves the same object from the cache.
\<close>

theorem copy_resets_memo_witness:
  "m_querySet ((const_iterator_of 1 0)\<lparr>m_fetched := 0, m_object := QObject [(''id'', ''stale'')]\<rparr>) \<noteq> 0
   \<and> m_offset ((const_iterator_of 1 0)\<lparr>m_fetched := 0, m_object := QObject [(''id'', ''stale'')]\<rparr>) \<noteq> - 1
   \<and> t loaded_at
        (const_iterator_copy
          ((const_iterator_of 1 0)\<lparr>m_fetched := 0, m_object := QObject [(''id'', ''stale'')]\<rparr>))
        one_row
       = (Some (QObject [(''id'', ''7'')]),
          (const_iterator_of 1 0)\<lparr>m_fetched := 0, m_object := QObject [(''id'', ''7'')]\<rparr>,
          one_row\<lparr>at_calls := [(1, 0)]\<rparr>)
   \<and> cache_hit loaded_at
   \<and> m_fetched (const_iterator_of 1 0) \<noteq> m_offset (const_iterator_of 1 0)
   \<and> fst (t loaded_at (const_iterator_of 1 0) one_row) = Some (QObject [(''id'', ''7'')])
   \<and> t loaded_at (const_iterator_copy (fst (snd (t loaded_at (const_iterator_of 1 0) one_row))))
        (snd (snd (t loaded_at (const_iterator_of 1 0) one_row)))
       = (Some (QObject [(''id'', ''7'')]),
          (const_iterator_of 1 0)\<lparr>m_fetched := 0, m_object := QObject [(''id'', ''7'')]\<rparr>,
          one_row\<lparr>at_calls := [(1, 0), (1, 0)]\<rparr>)"
proof -
  have fetched: "t loaded_at (const_iterator_of 1 0) one_row
      = (Some (QObject [(''id'', ''7'')]),
         (const_iterator_of 1 0)\<lparr>m_fetched := 0, m_object := QObject [(''id'', ''7'')]\<rparr>,
         one_row\<lparr>at_calls := [(1, 0)]\<rparr>)"
    by (simp add: t_def const_iterator_of_def loaded_at_def one_row_def)
  show ?thesis
    using copy_resets_memo [where at = loaded_at and w = one_row
        and it = "(const_iterator_of 1 0)\<lparr>m_fetched := 0, m_object := QObject [(''id'', ''stale'')]\<rparr>"
        and ob = "QObject []"]
      copy_resets_memo [where at = loaded_at and w = one_row and it = "const_iterator_of 1 0"
        and ob = "QObject [(''id'', ''7'')]"]
      cache_hit_loaded_at fetched
    by (simp add: const_iterator_of_def const_iterator_copy_def loaded_at_def one_row_def)
qed

text \<open>
  Outside the documented use the copy never reaches \<^verbatim>\<open>at\<close>. The header tells not to
  dereference an uninitialized iterator (lines 94-99) and calls a step before
  \<^verbatim>\<open>begin()\<close> undefined (line 244): the copy of a default-constructed iterator has no
  query set and hands back the null pointer; the copy of an iterator at offset -1
  finds its reset memo equal to its offset and hands back its default-constructed
  object. The record of calls stays empty in both.
\<close>

lemma copy_outside_documented_use:
  "t loaded_at (const_iterator_copy const_iterator_default) one_row
     = (None, const_iterator_default, one_row)
   \<and> t loaded_at (const_iterator_copy (op_minus (const_iterator_of 1 0) 1)) one_row
     = (Some (QObject []), const_iterator_of 1 (- 1), one_row)
   \<and> at_calls one_row = []"
  by (simp add: t_def const_iterator_copy_def const_iterator_default_def const_iterator_of_def
      op_minus_def loaded_at_def one_row_def)

section \<open>Dereferencing past the end\<close>

text \<open>
  Claim C7, as amended. Take an iterator whose memo differs from its offset (every
  freshly constructed or copied iterator at an offset other than -1, and every iterator
  stepped away from the offset it last fetched). If it has no query set, or
  \<^verbatim>\<open>at(offset)\<close> fails, then \<^verbatim>\<open>t()\<close> and \<^verbatim>\<open>operator->\<close> hand back the null pointer,
  never \<open>m_object\<close>, stale or default; the memo and the offset stay as they were; and
  \<^verbatim>\<open>at\<close> was called once (not at all without a query set). \<^verbatim>\<open>operator*\<close> dereferences
  that null pointer: it has no result there.
\<close>

theorem deref_past_end:
  "m_fetched it \<noteq> m_offset it
   \<and> (m_querySet it = 0 \<or> \<not> fst (at (heap w) (m_querySet it) (m_offset it) (m_object it)))
   \<longrightarrow> fst (t at it w) = None
       \<and> fst (op_arrow at it w) = None
       \<and> fst (op_star at it w) = NullDereference
       \<and> m_fetched (fst (snd (t at it w))) = m_fetched it
       \<and> m_offset (fst (snd (t at it w))) = m_offset it
       \<and> at_calls (snd (snd (t at it w)))
           = at_calls w @ (if m_querySet it = 0 then [] else [(m_querySet it, m_offset it)])"
  by (auto simp: t_def op_arrow_def op_star_def Let_def split: prod.splits)

text \<open>
  The example: an iterator over the one-object query set fetches offset 0, steps to
  offset 1 and is dereferenced there. \<^verbatim>\<open>at(1)\<close> fails, and the iterator hands back
  the null pointer, not the object it fetched at offset 0.
\<close>

theorem deref_past_end_witness:
  "t loaded_at (const_iterator_of 1 0) one_row
     = (Some (QObject [(''id'', ''7'')]),
        (const_iterator_of 1 0)\<lparr>m_fetched := 0, m_object := QObject [(''id'', ''7'')]\<rparr>,
        one_row\<lparr>at_calls := [(1, 0)]\<rparr>)
   \<and> m_fetched (op_pre_inc ((const_iterator_of 1 0)\<lparr>m_fetched := 0, m_object := QObject [(''id'', ''7'')]\<rparr>))
      \<noteq> m_offset (op_pre_inc ((const_iterator_of 1 0)\<lparr>m_fetched := 0, m_object := QObject [(''id'', ''7'')]\<rparr>))
   \<and> fst (loaded_at (heap (one_row\<lparr>at_calls := [(1, 0)]\<rparr>)) 1 1 (QObject [(''id'', ''7'')])) = False
   \<and> fst (op_arrow loaded_at
        (op_pre_inc ((const_iterator_of 1 0)\<lparr>m_fetched := 0, m_object := QObject [(''id'', ''7'')]\<rparr>))
        (one_row\<lparr>at_calls := [(1, 0)]\<rparr>)) = None
   \<and> at_calls (snd (snd (t loaded_at
        (op_pre_inc ((const_iterator_of 1 0)\<lparr>m_fetched := 0, m_object := QObject [(''id'', ''7'')]\<rparr>))
        (one_row\<lparr>at_calls := [(1, 0)]\<rparr>)))) = [(1, 0), (1, 1)]"
  using deref_past_end [where at = loaded_at and w = "one_row\<lparr>at_calls := [(1, 0)]\<rparr>"
      and it = "op_pre_inc ((const_iterator_of 1 0)\<lparr>m_fetched := 0, m_object := QObject [(''id'', ''7'')]\<rparr>)"]
  by (simp add: t_def const_iterator_of_def op_pre_inc_def loaded_at_def one_row_def)

text \<open>
  Claim C7 as stated fails twice. Past the end (offset 1 of one object) \<^verbatim>\<open>operator*\<close>
  dereferences the null pointer, which is undefined behaviour and no error result. At
  offset -1, where \<^verbatim>\<open>at\<close> fails too, a fresh iterator finds its memo -1 equal to its
  offset and hands back its default-constructed object.
\<close>

theorem deref_past_end_counterexample:
  "fst (loaded_at (heap one_row) 1 1 (QObject [])) = False
   \<and> fst (op_star loaded_at (const_iterator_of 1 1) one_row) = NullDereference
   \<and> fst (loaded_at (heap one_row) 1 (- 1) (QObject [])) = False
   \<and> fst (op_star loaded_at (const_iterator_of 1 (- 1)) one_row) = Ref (QObject [])"
  by (simp add: t_def op_star_def const_iterator_of_def loaded_at_def one_row_def)

section \<open>Chained limits\<close>

lemma limit_spec_compose:
  "0 \<le> b \<Longrightarrow> 0 \<le> c \<Longrightarrow> 0 \<le> d \<Longrightarrow>
   limit_spec (limit_spec sp a b) c d = limit_spec sp (a + c) (max 0 (min d (b - c)))"
  by (cases "window_length sp") (auto simp: limit_spec_def Let_def min_def max_def)

lemma limit_spec_example: "limit_spec (limit_spec sp 2 3) 1 1 = limit_spec sp 3 1"
  using limit_spec_compose [of 3 1 1 sp 2] by simp

lemma at_qs_own_cache:
  "equivalent q1 st1 q2 st2 \<Longrightarrow>
   fst (at_qs ext q1 i st1) = fst (at_qs ext q2 i st2)
   \<and> snd (snd (at_qs ext q1 i st1)) = snd (snd (at_qs ext q2 i st2))
   \<and> equivalent q1 (fst (snd (at_qs ext q1 i st1))) q2 (fst (snd (at_qs ext q2 i st2)))"
  by (auto simp: equivalent_def at_qs_def Let_def split: sum.splits)

text \<open>
  Claim C6. For every query set \<open>S\<close>, \<open>S.limit(2, 3).limit(1, 1)\<close> and
  \<open>S.limit(3, 1)\<close> are equivalent: the same specification, both on an empty cache, so
  \<^verbatim>\<open>at\<close> returns the same and executes the same statements on either, at every index.
  In general the new offset is the previous one plus the position asked for; a window
  of length \<open>d\<close> at position \<open>c\<close> inside a window of length \<open>b\<close> at position \<open>a\<close> is
  the window at position \<open>a + c\<close> of length \<open>min d (b - c)\<close>, or of length 0 when that is
  negative; and if the previous window had an end, the new window has one too and is
  empty or ends no later.
\<close>

theorem limit_rebases:
  "equivalent (fst (limit_qs (fst (limit_qs S 2 3 st)) 1 1 st1))
              (snd (limit_qs (fst (limit_qs S 2 3 st)) 1 1 st1))
              (fst (limit_qs S 3 1 st2)) (snd (limit_qs S 3 1 st2))
   \<and> fst (at_qs ext (fst (limit_qs (fst (limit_qs S 2 3 st)) 1 1 st1)) i
            (snd (limit_qs (fst (limit_qs S 2 3 st)) 1 1 st1)))
       = fst (at_qs ext (fst (limit_qs S 3 1 st2)) i (snd (limit_qs S 3 1 st2)))
   \<and> snd (snd (at_qs ext (fst (limit_qs (fst (limit_qs S 2 3 st)) 1 1 st1)) i
            (snd (limit_qs (fst (limit_qs S 2 3 st)) 1 1 st1))))
       = snd (snd (at_qs ext (fst (limit_qs S 3 1 st2)) i (snd (limit_qs S 3 1 st2))))
   \<and> offset (limit_spec sp pos len) = offset sp + pos
   \<and> (0 \<le> b \<and> 0 \<le> c \<and> 0 \<le> d \<longrightarrow>
        limit_spec (limit_spec sp a b) c d = limit_spec sp (a + c) (max 0 (min d (b - c))))
   \<and> (window_length sp = Some l \<longrightarrow>
        (\<exists>l'. window_length (limit_spec sp pos len) = Some l' \<and> 0 \<le> l'
           \<and> (l' = 0 \<or> offset (limit_spec sp pos len) + l' \<le> offset sp + l)))"
proof -
  have eq: "equivalent (fst (limit_qs (fst (limit_qs S 2 3 st)) 1 1 st1))
              (snd (limit_qs (fst (limit_qs S 2 3 st)) 1 1 st1))
              (fst (limit_qs S 3 1 st2)) (snd (limit_qs S 3 1 st2))"
    by (simp add: equivalent_def limit_qs_def chain_def limit_spec_example)
  have clamp: "\<exists>l'. window_length (limit_spec sp pos len) = Some l' \<and> 0 \<le> l'
           \<and> (l' = 0 \<or> offset (limit_spec sp pos len) + l' \<le> offset sp + l)"
    if "window_length sp = Some l"
    using that by (auto simp: limit_spec_def Let_def min_def max_def)
  show ?thesis
    using eq at_qs_own_cache [OF eq, of ext i] limit_spec_compose [of b c d sp a] clamp
    by (simp add: limit_spec_def Let_def)
qed

text \<open>
  The example: over the ten-row table, a window of 5 at position 2, and inside it a
  window of 4 at position 3: the room left is 2, and the result is the window of 2 at
  position 5, within the first window's end at 7. And \<open>at(0)\<close> on
  \<open>limit(2, 3).limit(1, 1)\<close> and on \<open>limit(3, 1)\<close> of a fresh query set both find the
  fourth row.
\<close>

theorem limit_rebases_witness:
  "(0::int) \<le> 5 \<and> (0::int) \<le> 3 \<and> (0::int) \<le> 4
   \<and> limit_spec (limit_spec default_spec 2 5) 3 4 = limit_spec default_spec 5 2
   \<and> window_length (limit_spec default_spec 2 5) = Some 5
   \<and> window_length (limit_spec (limit_spec default_spec 2 5) 3 4) = Some 2
   \<and> offset (limit_spec (limit_spec default_spec 2 5) 3 4) + 2
       \<le> offset (limit_spec default_spec 2 5) + 5
   \<and> fst (at_qs (table_db [''a'', ''b'', ''c'', ''d'', ''e'', ''f'', ''g'', ''h'', ''i'', ''j''])
        (fst (limit_qs (fst (limit_qs fresh_set 2 3 fresh_store)) 1 1
           (snd (limit_qs fresh_set 2 3 fresh_store)))) 0
        (snd (limit_qs (fst (limit_qs fresh_set 2 3 fresh_store)) 1 1
           (snd (limit_qs fresh_set 2 3 fresh_store)))))
       = Inr ''d''
   \<and> fst (at_qs (table_db [''a'', ''b'', ''c'', ''d'', ''e'', ''f'', ''g'', ''h'', ''i'', ''j''])
        (fst (limit_qs fresh_set 3 1 fresh_store)) 0 (snd (limit_qs fresh_set 3 1 fresh_store)))
       = Inr ''d''"
  using limit_rebases [where sp = "limit_spec default_spec 2 5" and pos = 3 and len = 4
      and l = 5 and a = 2 and b = 5 and c = 3 and d = 4 and S = fresh_set
      and st = fresh_store and ?st1.0 = "snd (limit_qs fresh_set 2 3 fresh_store)"
      and ?st2.0 = fresh_store and i = 0
      and ext = "table_db [''a'', ''b'', ''c'', ''d'', ''e'', ''f'', ''g'', ''h'', ''i'', ''j'']"]
  by (simp add: limit_spec_def default_spec_def at_qs_def limit_qs_def chain_def
      fresh_set_def fresh_store_def table_db_def window_def empty_cache_def batch_size_def
      Let_def)

section \<open>Indexed access twice\<close>



lemma at_loaded:
  "at_qs (table_db [''alice'']) fresh_set 0 loaded_store = (Inr ''alice'', loaded_store, [])"
  by (simp add: at_qs_def fresh_set_def loaded_store_def Let_def)




section \<open>Chaining leaves the receiver alone\<close>

lemma chain_frame:
  "cache_ref S < next_ref st \<Longrightarrow>
   caches (snd (chain sp st)) (cache_ref S) = caches st (cache_ref S)
   \<and> cache_ref (fst (chain sp st)) \<noteq> cache_ref S
   \<and> caches (snd (chain sp st)) (cache_ref (fst (chain sp st))) = empty_cache
   \<and> spec (fst (chain sp st)) = sp
   \<and> cache_ref S < next_ref (snd (chain sp st))
   \<and> cache_ref (fst (chain sp st)) < next_ref (snd (chain sp st))"
  by (simp add: chain_def)

lemma at_qs_same_cache:
  "caches st' (cache_ref S) = caches st (cache_ref S) \<Longrightarrow>
   fst (at_qs ext S i st') = fst (at_qs ext S i st)
   \<and> snd (snd (at_qs ext S i st')) = snd (snd (at_qs ext S i st))"
  using at_qs_own_cache [of S st' S st ext i] by (simp add: equivalent_def)

text \<open>
  Claim C1. Let \<open>S\<close> be a live query set (its cache is one of the store's). Each of
  the seven chaining operations applied to \<open>S\<close> returns a new query set on a cache of
  its own, which is empty, and leaves the count, the cached rows and the exhausted
  flag of \<open>S\<close> as they were; \<^verbatim>\<open>at\<close> on \<open>S\<close> afterwards returns what it would have
  returned before and executes the same statements. \<open>S\<close> and the new query set are
  live in the store afterwards, so the same holds of whatever is chained next.
\<close>

theorem chaining_leaves_receiver:
  assumes "cache_ref S < next_ref st"
  shows "\<forall>f \<in> set [all_qs S, filter_qs S p, exclude_qs S p, none_qs S, orderBy_qs S keys,
                   limit_qs S pos len, selectRelated_qs S].
           count_cache (caches (snd (f st)) (cache_ref S)) = count_cache (caches st (cache_ref S))
         \<and> rows (caches (snd (f st)) (cache_ref S)) = rows (caches st (cache_ref S))
         \<and> exhausted (caches (snd (f st)) (cache_ref S)) = exhausted (caches st (cache_ref S))
         \<and> fst (at_qs ext S i (snd (f st))) = fst (at_qs ext S i st)
         \<and> snd (snd (at_qs ext S i (snd (f st)))) = snd (snd (at_qs ext S i st))
         \<and> cache_ref (fst (f st)) \<noteq> cache_ref S
         \<and> caches (snd (f st)) (cache_ref (fst (f st))) = empty_cache
         \<and> cache_ref S < next_ref (snd (f st))
         \<and> cache_ref (fst (f st)) < next_ref (snd (f st))"
proof -
  have one: "count_cache (caches (snd (chain sp st)) (cache_ref S))
             = count_cache (caches st (cache_ref S))
         \<and> rows (caches (snd (chain sp st)) (cache_ref S)) = rows (caches st (cache_ref S))
         \<and> exhausted (caches (snd (chain sp st)) (cache_ref S))
             = exhausted (caches st (cache_ref S))
         \<and> fst (at_qs ext S i (snd (chain sp st))) = fst (at_qs ext S i st)
         \<and> snd (snd (at_qs ext S i (snd (chain sp st)))) = snd (snd (at_qs ext S i st))
         \<and> cache_ref (fst (chain sp st)) \<noteq> cache_ref S
         \<and> caches (snd (chain sp st)) (cache_ref (fst (chain sp st))) = empty_cache
         \<and> cache_ref S < next_ref (snd (chain sp st))
         \<and> cache_ref (fst (chain sp st)) < next_ref (snd (chain sp st))" for sp
    using chain_frame [OF assms, of sp] at_qs_same_cache [of "snd (chain sp st)" S st ext i]
    by simp
  show ?thesis
    unfolding all_qs_def filter_qs_def exclude_qs_def none_qs_def orderBy_qs_def limit_qs_def
      selectRelated_qs_def
    using one by simp
qed

text \<open>
  The example: the query set that has its one row cached and is exhausted; after
  \<^verbatim>\<open>none()\<close> on it, its cache still holds the row, it is still exhausted, and \<^verbatim>\<open>at(0)\<close>
  still returns the row; the new query set has cache 1, which is empty.
\<close>

theorem chaining_leaves_receiver_witness:
  "cache_ref fresh_set < next_ref loaded_store
   \<and> rows (caches (snd (none_qs fresh_set loaded_store)) (cache_ref fresh_set)) = [''alice'']
   \<and> exhausted (caches (snd (none_qs fresh_set loaded_store)) (cache_ref fresh_set))
   \<and> fst (at_qs (table_db [''alice'']) fresh_set 0 (snd (none_qs fresh_set loaded_store)))
       = Inr ''alice''
   \<and> cache_ref (fst (none_qs fresh_set loaded_store)) = 1
   \<and> caches (snd (none_qs fresh_set loaded_store)) 1 = empty_cache"
proof -
  have live: "cache_ref fresh_set < next_ref loaded_store"
    by (simp add: fresh_set_def loaded_store_def)
  have "none_qs fresh_set \<in> set [all_qs fresh_set, filter_qs fresh_set All_node,
      exclude_qs fresh_set All_node, none_qs fresh_set, orderBy_qs fresh_set [],
      limit_qs fresh_set 0 0, selectRelated_qs fresh_set]"
    by simp
  from chaining_leaves_receiver [OF live, of All_node "[]" 0 0 "table_db [''alice'']" 0,
      THEN bspec, OF this] live
  show ?thesis
    by (simp add: at_loaded) (simp add: none_qs_def chain_def loaded_store_def fresh_set_def)
qed

end
